theory Spec2Isabelle
  imports Main
begin

section \<open>JavaScript values held by the history\<close>

text \<open>
  The hook \<open>useUndoRedo<T>\<close> is generic in the tracked value. It looks at a value of
  \<open>T\<close> in two ways only: through \<open>JSON.stringify\<close> (inside \<open>isEqual\<close>) and through
  its truthiness (the guard \<open>lastPast && ...\<close>). The values are modelled as the
  JSON-shaped fragment of JavaScript: \<open>undefined\<close>, \<open>null\<close>, booleans, integer-valued
  numbers, strings, arrays and plain objects (a property list in enumeration order).
\<close>

datatype jsval =
    JUndefined
  | JNull
  | JBool bool
  | JNum int
  | JStr string
  | JArr "jsval list"
  | JObj "(string \<times> jsval) list"

text \<open>Truthiness: \<open>undefined\<close>, \<open>null\<close>, \<open>false\<close>, \<open>0\<close> and the empty string are falsy;
  every array and every object is truthy.\<close>

fun truthy :: "jsval \<Rightarrow> bool" where
  "truthy JUndefined = False"
| "truthy JNull = False"
| "truthy (JBool b) = b"
| "truthy (JNum n) = (n \<noteq> 0)"
| "truthy (JStr s) = (s \<noteq> [])"
| "truthy (JArr xs) = True"
| "truthy (JObj kvs) = True"

subsection \<open>\<open>JSON.stringify\<close>\<close>

definition dquote :: char where
  "dquote = CHR 0x22"

definition backslash :: char where
  "backslash = CHR 0x5C"

definition hex_digit :: "nat \<Rightarrow> char" where
  "hex_digit n = ''0123456789abcdef'' ! (n mod 16)"

text \<open>One character of a quoted JSON string: the quote and the backslash are escaped,
  control characters get their short escape or \<open>\u00XX\<close>.\<close>

definition quote_char :: "char \<Rightarrow> string" where
  "quote_char c =
     (let n = (of_char c :: nat) in
      if c = dquote then [backslash, dquote]
      else if c = backslash then [backslash, backslash]
      else if n = 8 then [backslash, CHR ''b'']
      else if n = 9 then [backslash, CHR ''t'']
      else if n = 10 then [backslash, CHR ''n'']
      else if n = 12 then [backslash, CHR ''f'']
      else if n = 13 then [backslash, CHR ''r'']
      else if n < 32 then [backslash, CHR ''u'', CHR ''0'', CHR ''0'', hex_digit (n div 16), hex_digit n]
      else [c])"

definition quote :: "string \<Rightarrow> string" where
  "quote s = [dquote] @ concat (map quote_char s) @ [dquote]"

fun digits :: "nat \<Rightarrow> string" where
  "digits n =
     (if n < 10 then [''0123456789'' ! n]
      else digits (n div 10) @ [''0123456789'' ! (n mod 10)])"

declare digits.simps [simp del]

definition number_to_string :: "int \<Rightarrow> string" where
  "number_to_string i = (if i < 0 then CHR ''-'' # digits (nat (- i)) else digits (nat i))"

fun join_commas :: "string list \<Rightarrow> string" where
  "join_commas [] = []"
| "join_commas [s] = s"
| "join_commas (s # t # ss) = s @ '','' @ join_commas (t # ss)"

text \<open>
  \<open>JSON.stringify(undefined)\<close> is \<open>undefined\<close>, not a string: the result is an option.
  Inside an array \<open>undefined\<close> is written \<open>null\<close>; inside an object a property whose
  value is \<open>undefined\<close> is left out.
\<close>

fun stringify :: "jsval \<Rightarrow> string option"
  and stringify_elems :: "jsval list \<Rightarrow> string list"
  and stringify_props :: "(string \<times> jsval) list \<Rightarrow> string list"
where
  "stringify JUndefined = None"
| "stringify JNull = Some ''null''"
| "stringify (JBool b) = Some (if b then ''true'' else ''false'')"
| "stringify (JNum n) = Some (number_to_string n)"
| "stringify (JStr s) = Some (quote s)"
| "stringify (JArr xs) = Some (''['' @ join_commas (stringify_elems xs) @ '']'')"
| "stringify (JObj kvs) = Some (''{'' @ join_commas (stringify_props kvs) @ ''}'')"
| "stringify_elems [] = []"
| "stringify_elems (x # xs) =
     (case stringify x of None \<Rightarrow> ''null'' | Some s \<Rightarrow> s) # stringify_elems xs"
| "stringify_props [] = []"
| "stringify_props ((k, v) # kvs) =
     (case stringify v of
        None \<Rightarrow> stringify_props kvs
      | Some s \<Rightarrow> (quote k @ '':'' @ s) # stringify_props kvs)"

text \<open>\<open>isEqual(a, b)\<close> is \<open>JSON.stringify(a) === JSON.stringify(b)\<close>: strict equality of
  two strings, or of \<open>undefined\<close> with \<open>undefined\<close>.\<close>

definition isEqual :: "jsval \<Rightarrow> jsval \<Rightarrow> bool" where
  "isEqual a b = (stringify a = stringify b)"

section \<open>The history state\<close>

record HistoryState =
  past :: "jsval list"
  present :: jsval
  future :: "jsval list"

text \<open>
  A history state is a JavaScript object, and the hook compares nothing by reference
  itself, but an updater that returns its argument \<open>h\<close> hands back the very same object
  while an object literal is a new one. The objects are never mutated, so an object is
  modelled as its identity paired with its fields; allocation threads a counter of the
  next unused identity.
\<close>

type_synonym ref = nat

type_synonym 'a obj = "ref \<times> 'a"

definition new_object :: "'a \<Rightarrow> ref \<Rightarrow> 'a obj \<times> ref" where
  "new_object v n = ((n, v), Suc n)"

text \<open>\<open>xs[i]\<close>: reading an array out of range gives \<open>undefined\<close>.\<close>

definition at_index :: "jsval list \<Rightarrow> int \<Rightarrow> jsval" where
  "at_index xs i = (if 0 \<le> i \<and> i < int (length xs) then xs ! nat i else JUndefined)"

text \<open>What the hook keeps between renders: the \<open>useState\<close> cell \<open>history\<close>, the
  \<open>useRef\<close> cell \<open>lastSavedState\<close> and the allocation counter.\<close>

record hook =
  history :: "HistoryState obj"
  lastSavedState :: jsval
  fresh :: ref

abbreviation hist :: "hook \<Rightarrow> HistoryState" where
  "hist s \<equiv> snd (history s)"

text \<open>\<open>setHistory(f)\<close> with a function: the stored object becomes \<open>f(h)\<close> for the
  latest stored \<open>h\<close>. \<open>setHistory(v)\<close> with an object literal stores the new object.\<close>

definition setHistory :: "(HistoryState obj \<Rightarrow> ref \<Rightarrow> HistoryState obj \<times> ref) \<Rightarrow> hook \<Rightarrow> hook" where
  "setHistory f s =
     (case f (history s) (fresh s) of (h', n') \<Rightarrow> s\<lparr>history := h', fresh := n'\<rparr>)"

definition setHistory_value :: "HistoryState \<Rightarrow> hook \<Rightarrow> hook" where
  "setHistory_value v s =
     (case new_object v (fresh s) of (h', n') \<Rightarrow> s\<lparr>history := h', fresh := n'\<rparr>)"

section \<open>The operations of \<open>useUndoRedo\<close>\<close>

definition useUndoRedo :: "jsval \<Rightarrow> hook" where
  "useUndoRedo initialState =
     (case new_object \<lparr>past = [], present = initialState, future = []\<rparr> 0 of
        (h, n) \<Rightarrow> \<lparr>history = h, lastSavedState = initialState, fresh = n\<rparr>)"

definition canUndo :: "hook \<Rightarrow> bool" where
  "canUndo s = (length (past (hist s)) > 0)"

definition canRedo :: "hook \<Rightarrow> bool" where
  "canRedo s = (length (future (hist s)) > 0)"

definition undo_updater :: "HistoryState obj \<Rightarrow> ref \<Rightarrow> HistoryState obj \<times> ref" where
  "undo_updater h n =
     (if length (past (snd h)) = 0 then (h, n)
      else
        let previous = at_index (past (snd h)) (int (length (past (snd h))) - 1);
            newPast = take (length (past (snd h)) - 1) (past (snd h))
        in new_object
             \<lparr>past = newPast, present = previous, future = present (snd h) # future (snd h)\<rparr> n)"

definition undo :: "hook \<Rightarrow> hook" where
  "undo s = setHistory undo_updater s"

definition redo_updater :: "HistoryState obj \<Rightarrow> ref \<Rightarrow> HistoryState obj \<times> ref" where
  "redo_updater h n =
     (if length (future (snd h)) = 0 then (h, n)
      else
        let next = at_index (future (snd h)) 0;
            newFuture = drop 1 (future (snd h))
        in new_object
             \<lparr>past = past (snd h) @ [present (snd h)], present = next, future = newFuture\<rparr> n)"

definition redo :: "hook \<Rightarrow> hook" where
  "redo s = setHistory redo_updater s"

text \<open>The argument of \<open>setState\<close>: a value of \<open>T\<close>, or a function from the previous
  value (\<open>typeof value === "function"\<close>).\<close>

datatype setarg = Value jsval | Func "jsval \<Rightarrow> jsval"

fun nextValue :: "setarg \<Rightarrow> jsval \<Rightarrow> jsval" where
  "nextValue (Func f) p = f p"
| "nextValue (Value v) p = v"

definition setState_updater :: "setarg \<Rightarrow> HistoryState obj \<Rightarrow> ref \<Rightarrow> HistoryState obj \<times> ref" where
  "setState_updater val h n =
     (let nv = nextValue val (present (snd h)) in
      if isEqual nv (present (snd h)) then (h, n)
      else
        let lastPast = at_index (past (snd h)) (int (length (past (snd h))) - 1) in
        if truthy lastPast \<and> isEqual lastPast nv then
          new_object ((snd h)\<lparr>present := nv\<rparr>) n
        else
          new_object \<lparr>past = past (snd h) @ [present (snd h)], present = nv, future = []\<rparr> n)"

definition setState :: "setarg \<Rightarrow> hook \<Rightarrow> hook" where
  "setState val s = setHistory (setState_updater val) s"

definition reset :: "jsval \<Rightarrow> hook \<Rightarrow> hook" where
  "reset newState s =
     (setHistory_value \<lparr>past = [], present = newState, future = []\<rparr> s)
       \<lparr>lastSavedState := newState\<rparr>"


definition hasUnsavedChanges :: "hook \<Rightarrow> bool" where
  "hasUnsavedChanges s = (\<not> isEqual (present (hist s)) (lastSavedState s))"

section \<open>Properties looked at below\<close>

text \<open>No two neighbours of a list are equal under \<open>isEqual\<close>.\<close>

fun adjacent_distinct :: "jsval list \<Rightarrow> bool" where
  "adjacent_distinct [] = True"
| "adjacent_distinct [x] = True"
| "adjacent_distinct (x # y # r) = (\<not> isEqual x y \<and> adjacent_distinct (y # r))"

text \<open>The invariant of the data model, as the specification words it: neither \<open>past\<close> nor
  \<open>future\<close> holds two adjacent equal elements, and the neighbour of \<open>present\<close> on
  either side is not equal to \<open>present\<close>.\<close>

definition history_invariant :: "HistoryState \<Rightarrow> bool" where
  "history_invariant h =
     (adjacent_distinct (past h) \<and> adjacent_distinct (future h)
      \<and> (past h = [] \<or> \<not> isEqual (last (past h)) (present h))
      \<and> (future h = [] \<or> \<not> isEqual (present h) (hd (future h))))"

text \<open>A run of \<open>setState\<close> calls, first argument first.\<close>

fun apply_sets :: "setarg list \<Rightarrow> hook \<Rightarrow> hook" where
  "apply_sets [] s = s"
| "apply_sets (v # vs) s = apply_sets vs (setState v s)"

section \<open>What each operation does to the history state\<close>

lemma at_index_last: "xs \<noteq> [] \<Longrightarrow> at_index xs (int (length xs) - 1) = last xs"
  by (simp add: at_index_def last_conv_nth nat_diff_distrib')

lemma at_index_Nil: "at_index [] i = JUndefined"
  by (auto simp add: at_index_def)

lemma at_index_hd: "xs \<noteq> [] \<Longrightarrow> at_index xs 0 = hd xs"
  by (simp add: at_index_def hd_conv_nth)

lemma hist_undo:
  "hist (undo s) =
     (if past (hist s) = [] then hist s
      else \<lparr>past = butlast (past (hist s)), present = last (past (hist s)),
            future = present (hist s) # future (hist s)\<rparr>)"
  by (simp add: undo_def setHistory_def undo_updater_def new_object_def Let_def
      at_index_last butlast_conv_take)

lemma hist_redo:
  "hist (redo s) =
     (if future (hist s) = [] then hist s
      else \<lparr>past = past (hist s) @ [present (hist s)], present = hd (future (hist s)),
            future = tl (future (hist s))\<rparr>)"
  by (simp add: redo_def setHistory_def redo_updater_def new_object_def Let_def
      at_index_hd drop_Suc)

lemma setState_same:
  "isEqual (nextValue val (present (hist s))) (present (hist s)) \<Longrightarrow> setState val s = s"
  by (simp add: setState_def setHistory_def setState_updater_def Let_def)

lemma hist_setState_push:
  assumes "\<not> isEqual (nextValue val (present (hist s))) (present (hist s))"
    and "past (hist s) = [] \<or> \<not> truthy (last (past (hist s)))
         \<or> \<not> isEqual (last (past (hist s))) (nextValue val (present (hist s)))"
  shows "hist (setState val s) =
     \<lparr>past = past (hist s) @ [present (hist s)],
      present = nextValue val (present (hist s)), future = []\<rparr>"
proof (cases "past (hist s) = []")
  case True
  with assms(1) show ?thesis
    by (simp add: setState_def setHistory_def setState_updater_def new_object_def Let_def
        at_index_Nil)
next
  case False
  with assms show ?thesis
    by (auto simp add: setState_def setHistory_def setState_updater_def new_object_def Let_def
        at_index_last)
qed

lemma hist_setState_dedup:
  assumes "\<not> isEqual (nextValue val (present (hist s))) (present (hist s))"
    and "past (hist s) \<noteq> []" and "truthy (last (past (hist s)))"
    and "isEqual (last (past (hist s))) (nextValue val (present (hist s)))"
  shows "hist (setState val s) = (hist s)\<lparr>present := nextValue val (present (hist s))\<rparr>"
  using assms
  by (simp add: setState_def setHistory_def setState_updater_def new_object_def Let_def
      at_index_last)

lemma adjacent_distinct_append:
  "adjacent_distinct (xs @ y # ys) =
     (adjacent_distinct (xs @ [y]) \<and> adjacent_distinct (y # ys))"
  by (induction xs rule: adjacent_distinct.induct) (cases ys; auto)+

lemma adjacent_distinct_snoc:
  "adjacent_distinct (xs @ [y]) =
     (adjacent_distinct xs \<and> (xs = [] \<or> \<not> isEqual (last xs) y))"
  by (induction xs rule: adjacent_distinct.induct) auto

lemma adjacent_distinct_Cons:
  "adjacent_distinct (y # ys) =
     (adjacent_distinct ys \<and> (ys = [] \<or> \<not> isEqual y (hd ys)))"
  by (cases ys) auto

lemma history_invariant_zipper:
  "history_invariant h = adjacent_distinct (past h @ present h # future h)"
  unfolding history_invariant_def adjacent_distinct_append [of "past h"]
    adjacent_distinct_snoc adjacent_distinct_Cons by blast

lemma zipper_undo:
  "past (hist (undo s)) @ present (hist (undo s)) # future (hist (undo s))
     = past (hist s) @ present (hist s) # future (hist s)"
proof (cases "past (hist s) = []")
  case True then show ?thesis by (simp add: hist_undo)
next
  case False
  then have "butlast (past (hist s)) @ [last (past (hist s))] = past (hist s)" by simp
  then have "butlast (past (hist s)) @ last (past (hist s)) # present (hist s) # future (hist s)
      = past (hist s) @ present (hist s) # future (hist s)"
    by (metis append.assoc append_Cons append_Nil)
  with False show ?thesis by (simp add: hist_undo)
qed

lemma zipper_redo:
  "past (hist (redo s)) @ present (hist (redo s)) # future (hist (redo s))
     = past (hist s) @ present (hist s) # future (hist s)"
  by (cases "future (hist s)") (simp_all add: hist_redo)

lemma future_setState: "future (hist s) = [] \<Longrightarrow> future (hist (setState val s)) = []"
  by (simp add: setState_def setHistory_def setState_updater_def new_object_def Let_def)

lemma future_apply_sets: "future (hist s) = [] \<Longrightarrow> future (hist (apply_sets vs s)) = []"
  by (induction vs arbitrary: s) (simp_all add: future_setState)

lemma future_useUndoRedo: "future (hist (useUndoRedo v)) = []"
  by (simp add: useUndoRedo_def new_object_def)

lemma redo_undo:
  "past (hist s) \<noteq> [] \<or> future (hist s) = [] \<Longrightarrow> hist (redo (undo s)) = hist s"
  by (cases "past (hist s) = []") (auto simp add: hist_redo hist_undo)

section \<open>The claims\<close>

text \<open>
  C1. The specification asks that a \<open>set\<close> whose next value differs from \<open>present\<close> and
  equals the most recent entry of \<open>past\<close> only replaces \<open>present\<close>, for every value
  including the falsy ones. The code guards the comparison with \<open>lastPast && ...\<close>, so a
  falsy entry never reaches it. The state \<open>past = [0]\<close>, \<open>present = 1\<close>,
  \<open>future = [2]\<close> is reached by \<open>set(1); set(2); undo()\<close> from \<open>0\<close>; there \<open>set(0)\<close>
  has a next value that differs from \<open>present\<close> and equals the last entry of \<open>past\<close>,
  yet the code pushes \<open>present\<close> onto \<open>past\<close> and empties \<open>future\<close>. The same
  happens with the empty string, \<open>false\<close> and \<open>null\<close> in place of \<open>0\<close>.
\<close>

theorem C1_falsy_last_past_is_pushed:
  "undo (setState (Value (JNum 2)) (setState (Value (JNum 1)) (useUndoRedo (JNum 0))))
     = \<lparr>history = (3, \<lparr>past = [JNum 0], present = JNum 1, future = [JNum 2]\<rparr>),
        lastSavedState = JNum 0, fresh = 4\<rparr>
   \<and> \<not> isEqual (nextValue (Value (JNum 0)) (JNum 1)) (JNum 1)
   \<and> isEqual (nextValue (Value (JNum 0)) (JNum 1)) (last [JNum 0])
   \<and> hist (setState (Value (JNum 0))
        \<lparr>history = (3, \<lparr>past = [JNum 0], present = JNum 1, future = [JNum 2]\<rparr>),
         lastSavedState = JNum 0, fresh = 4\<rparr>)
      = \<lparr>past = [JNum 0, JNum 1], present = JNum 0, future = []\<rparr>
   \<and> hist (setState (Value (JStr ''''))
        \<lparr>history = (3, \<lparr>past = [JStr ''''], present = JNum 1, future = [JNum 2]\<rparr>),
         lastSavedState = JNum 0, fresh = 4\<rparr>)
      = \<lparr>past = [JStr '''', JNum 1], present = JStr '''', future = []\<rparr>
   \<and> hist (setState (Value (JBool False))
        \<lparr>history = (3, \<lparr>past = [JBool False], present = JNum 1, future = [JNum 2]\<rparr>),
         lastSavedState = JNum 0, fresh = 4\<rparr>)
      = \<lparr>past = [JBool False, JNum 1], present = JBool False, future = []\<rparr>
   \<and> hist (setState (Value JNull)
        \<lparr>history = (3, \<lparr>past = [JNull], present = JNum 1, future = [JNum 2]\<rparr>),
         lastSavedState = JNum 0, fresh = 4\<rparr>)
      = \<lparr>past = [JNull, JNum 1], present = JNull, future = []\<rparr>"
  by code_simp

text \<open>
  C2. The specification states that every operation keeps \<open>history_invariant\<close>. The
  third branch of \<open>setState\<close> is built to break it: after \<open>set(2); set(1)\<close> from \<open>1\<close>
  the last entry of \<open>past\<close> and \<open>present\<close> are both \<open>1\<close>.
\<close>

theorem C2_dedup_breaks_invariant:
  "\<not> history_invariant
       (hist (setState (Value (JNum 1)) (setState (Value (JNum 2)) (useUndoRedo (JNum 1)))))"
  by code_simp

text \<open>
  C2, amended. The invariant holds at construction and after every \<open>reset\<close>, whatever
  the state before. It is kept by \<open>undo\<close>, by \<open>redo\<close>, and by every \<open>set\<close> whose next
  value is equal to \<open>present\<close> or is not equal to the most recent entry of \<open>past\<close> (or
  \<open>past\<close> is empty). After a \<open>set\<close> that takes the deduplication branch (the next value
  differs from \<open>present\<close>, the most recent entry of \<open>past\<close> is truthy and equal to the
  next value) the invariant does not hold.
\<close>

theorem C2_invariant_kept_outside_dedup:
  "history_invariant (hist (useUndoRedo v))
   \<and> history_invariant (hist (reset v s))
   \<and> (history_invariant (hist s) \<longrightarrow>
        history_invariant (hist (undo s))
        \<and> history_invariant (hist (redo s))
        \<and> (isEqual (nextValue val (present (hist s))) (present (hist s))
            \<or> past (hist s) = []
            \<or> \<not> isEqual (last (past (hist s))) (nextValue val (present (hist s)))
           \<longrightarrow> history_invariant (hist (setState val s))))
   \<and> (\<not> isEqual (nextValue val (present (hist s))) (present (hist s))
        \<and> past (hist s) \<noteq> []
        \<and> truthy (last (past (hist s)))
        \<and> isEqual (last (past (hist s))) (nextValue val (present (hist s)))
       \<longrightarrow> \<not> history_invariant (hist (setState val s)))"
proof -
  have c: "history_invariant (hist (useUndoRedo v))"
    by (simp add: useUndoRedo_def new_object_def history_invariant_def)
  have r: "history_invariant (hist (reset v s))"
    by (simp add: reset_def setHistory_value_def new_object_def history_invariant_def)
  have u: "history_invariant (hist (undo s))" if "history_invariant (hist s)"
    using that by (simp add: history_invariant_zipper zipper_undo)
  have d: "history_invariant (hist (redo s))" if "history_invariant (hist s)"
    using that by (simp add: history_invariant_zipper zipper_redo)
  have st: "history_invariant (hist (setState val s))"
    if inv: "history_invariant (hist s)"
      and h: "isEqual (nextValue val (present (hist s))) (present (hist s))
        \<or> past (hist s) = []
        \<or> \<not> isEqual (last (past (hist s))) (nextValue val (present (hist s)))"
  proof (cases "isEqual (nextValue val (present (hist s))) (present (hist s))")
    case True
    then show ?thesis using inv by (simp add: setState_same)
  next
    case False
    with h have "past (hist s) = []
        \<or> \<not> isEqual (last (past (hist s))) (nextValue val (present (hist s)))"
      by blast
    then have "hist (setState val s) =
       \<lparr>past = past (hist s) @ [present (hist s)],
        present = nextValue val (present (hist s)), future = []\<rparr>"
      using False by (intro hist_setState_push) auto
    moreover have "adjacent_distinct (past (hist s) @ [present (hist s)])"
      using inv
      by (simp add: history_invariant_def adjacent_distinct_snoc)
    moreover have "\<not> isEqual (present (hist s)) (nextValue val (present (hist s)))"
      using False by (auto simp add: isEqual_def)
    ultimately show ?thesis
      by (simp add: history_invariant_def)
  qed
  have dd: "\<not> history_invariant (hist (setState val s))"
    if "\<not> isEqual (nextValue val (present (hist s))) (present (hist s))"
      and "past (hist s) \<noteq> []"
      and "truthy (last (past (hist s)))"
      and "isEqual (last (past (hist s))) (nextValue val (present (hist s)))"
  proof -
    have "hist (setState val s) = (hist s)\<lparr>present := nextValue val (present (hist s))\<rparr>"
      using that by (rule hist_setState_dedup)
    with that(2,4) show ?thesis
      by (simp add: history_invariant_def)
  qed
  from c r u d st dd show ?thesis by blast
qed

theorem C2_invariant_kept_witness:
  "history_invariant
     (hist \<lparr>history = (3, \<lparr>past = [JNum 1], present = JNum 2, future = [JNum 3]\<rparr>),
            lastSavedState = JNum 1, fresh = 4\<rparr>)
   \<and> \<not> isEqual (last [JNum 1]) (nextValue (Value (JNum 4)) (JNum 2))
   \<and> history_invariant (hist (useUndoRedo (JNum 7)))
   \<and> history_invariant
       (hist (reset (JNum 7)
          \<lparr>history = (2, \<lparr>past = [JNum 1], present = JNum 1, future = []\<rparr>),
           lastSavedState = JNum 1, fresh = 3\<rparr>))
   \<and> history_invariant
       (hist (undo
          \<lparr>history = (3, \<lparr>past = [JNum 1], present = JNum 2, future = [JNum 3]\<rparr>),
           lastSavedState = JNum 1, fresh = 4\<rparr>))
   \<and> history_invariant
       (hist (redo
          \<lparr>history = (3, \<lparr>past = [JNum 1], present = JNum 2, future = [JNum 3]\<rparr>),
           lastSavedState = JNum 1, fresh = 4\<rparr>))
   \<and> history_invariant
       (hist (setState (Value (JNum 4))
          \<lparr>history = (3, \<lparr>past = [JNum 1], present = JNum 2, future = [JNum 3]\<rparr>),
           lastSavedState = JNum 1, fresh = 4\<rparr>))
   \<and> \<not> isEqual (nextValue (Value (JNum 1)) (JNum 2)) (JNum 2)
   \<and> truthy (last [JNum 1])
   \<and> isEqual (last [JNum 1]) (nextValue (Value (JNum 1)) (JNum 2))
   \<and> \<not> history_invariant
       (hist (setState (Value (JNum 1))
          \<lparr>history = (3, \<lparr>past = [JNum 1], present = JNum 2, future = [JNum 3]\<rparr>),
           lastSavedState = JNum 1, fresh = 4\<rparr>))"
proof -
  let ?s = "\<lparr>history = (3, \<lparr>past = [JNum 1], present = JNum 2, future = [JNum 3]\<rparr>),
             lastSavedState = JNum 1, fresh = 4\<rparr>"
  let ?b = "\<lparr>history = (2, \<lparr>past = [JNum 1], present = JNum 1, future = []\<rparr>),
             lastSavedState = JNum 1, fresh = 3\<rparr>"
  have h: "history_invariant (hist ?s)"
    by code_simp
  have g: "\<not> isEqual (last [JNum 1]) (nextValue (Value (JNum 4)) (JNum 2))"
    by code_simp
  have e: "\<not> isEqual (nextValue (Value (JNum 1)) (JNum 2)) (JNum 2)"
    by code_simp
  have t: "truthy (last [JNum 1])"
    by simp
  have q: "isEqual (last [JNum 1]) (nextValue (Value (JNum 1)) (JNum 2))"
    by code_simp
  from C2_invariant_kept_outside_dedup [of "JNum 7" ?s "Value (JNum 4)"]
    C2_invariant_kept_outside_dedup [of "JNum 7" ?s "Value (JNum 1)"]
    C2_invariant_kept_outside_dedup [of "JNum 7" ?b "Value (JNum 1)"]
    h g e t q
  show ?thesis by simp
qed

text \<open>
  C3. The specification says that with a non-empty \<open>future\<close> every \<open>set\<close> whose new value
  differs from \<open>present\<close> empties \<open>future\<close>. In the state \<open>past = [1]\<close>, \<open>present = 2\<close>,
  \<open>future = [3]\<close> (reached by \<open>set(2); set(3); undo()\<close> from \<open>1\<close>) the call \<open>set(1)\<close>
  takes the branch that only replaces \<open>present\<close>, and \<open>future\<close> stays \<open>[3]\<close>.
\<close>

theorem C3_dedup_keeps_future:
  "undo (setState (Value (JNum 3)) (setState (Value (JNum 2)) (useUndoRedo (JNum 1))))
     = \<lparr>history = (3, \<lparr>past = [JNum 1], present = JNum 2, future = [JNum 3]\<rparr>),
        lastSavedState = JNum 1, fresh = 4\<rparr>
   \<and> \<not> isEqual (nextValue (Value (JNum 1)) (JNum 2)) (JNum 2)
   \<and> hist (setState (Value (JNum 1))
        \<lparr>history = (3, \<lparr>past = [JNum 1], present = JNum 2, future = [JNum 3]\<rparr>),
         lastSavedState = JNum 1, fresh = 4\<rparr>)
      = \<lparr>past = [JNum 1], present = JNum 1, future = [JNum 3]\<rparr>"
  by code_simp

text \<open>
  C3, amended. With a non-empty \<open>future\<close>, a \<open>set\<close> whose new value is equal neither to
  \<open>present\<close> nor to the most recent entry of \<open>past\<close> (or \<open>past\<close> is empty) appends
  \<open>present\<close> to \<open>past\<close>, makes the new value \<open>present\<close> and leaves \<open>future\<close> empty.
\<close>

theorem C3_set_truncates_future:
  assumes "future (hist s) \<noteq> []"
    and "\<not> isEqual (nextValue val (present (hist s))) (present (hist s))"
    and "past (hist s) = []
         \<or> \<not> isEqual (last (past (hist s))) (nextValue val (present (hist s)))"
  shows "future (hist (setState val s)) = []
    \<and> past (hist (setState val s)) = past (hist s) @ [present (hist s)]
    \<and> present (hist (setState val s)) = nextValue val (present (hist s))"
proof -
  have "hist (setState val s) =
     \<lparr>past = past (hist s) @ [present (hist s)],
      present = nextValue val (present (hist s)), future = []\<rparr>"
    using assms(2,3) by (intro hist_setState_push) auto
  then show ?thesis by simp
qed

theorem C3_set_truncates_future_witness:
  "future (hist \<lparr>history = (3, \<lparr>past = [JNum 1], present = JNum 2, future = [JNum 3]\<rparr>),
                 lastSavedState = JNum 1, fresh = 4\<rparr>) \<noteq> []
   \<and> \<not> isEqual (nextValue (Func (\<lambda>p. JArr [p])) (JNum 2)) (JNum 2)
   \<and> \<not> isEqual (last [JNum 1]) (nextValue (Func (\<lambda>p. JArr [p])) (JNum 2))
   \<and> hist (setState (Func (\<lambda>p. JArr [p]))
        \<lparr>history = (3, \<lparr>past = [JNum 1], present = JNum 2, future = [JNum 3]\<rparr>),
         lastSavedState = JNum 1, fresh = 4\<rparr>)
      = \<lparr>past = [JNum 1, JNum 2], present = JArr [JNum 2], future = []\<rparr>"
proof -
  let ?s = "\<lparr>history = (3, \<lparr>past = [JNum 1], present = JNum 2, future = [JNum 3]\<rparr>),
             lastSavedState = JNum 1, fresh = 4\<rparr>"
  let ?f = "Func (\<lambda>p. JArr [p])"
  have a: "future (hist ?s) \<noteq> []"
    by simp
  have b: "\<not> isEqual (nextValue ?f (present (hist ?s))) (present (hist ?s))"
    by code_simp
  have c: "past (hist ?s) = []
      \<or> \<not> isEqual (last (past (hist ?s))) (nextValue ?f (present (hist ?s)))"
    by code_simp
  from C3_set_truncates_future [OF a b c] a b c show ?thesis
    by (simp add: HistoryState.equality)
qed

text \<open>
  C4. After any number of \<open>set\<close> calls on a freshly constructed manager, \<open>undo\<close> followed
  by \<open>redo\<close> gives back the same \<open>past\<close>, \<open>present\<close> and \<open>future\<close>.
\<close>

theorem C4_undo_then_redo_restores:
  "hist (redo (undo (apply_sets vs (useUndoRedo init)))) = hist (apply_sets vs (useUndoRedo init))"
  by (rule redo_undo) (simp add: future_apply_sets future_useUndoRedo)

text \<open>
  C5. The scenario of the specification, from \<open>0\<close>:
  \<open>set(1); set(2); undo(); undo(); redo(); set(5)\<close>.
\<close>

theorem C5_end_to_end_scenario:
  "(let s0 = useUndoRedo (JNum 0);
        s1 = setState (Value (JNum 1)) s0;
        s2 = setState (Value (JNum 2)) s1;
        s3 = undo s2;
        s4 = undo s3;
        s5 = redo s4;
        s6 = setState (Value (JNum 5)) s5
    in hist s1 = \<lparr>past = [JNum 0], present = JNum 1, future = []\<rparr>
     \<and> hist s2 = \<lparr>past = [JNum 0, JNum 1], present = JNum 2, future = []\<rparr>
     \<and> hist s3 = \<lparr>past = [JNum 0], present = JNum 1, future = [JNum 2]\<rparr>
     \<and> hist s4 = \<lparr>past = [], present = JNum 0, future = [JNum 1, JNum 2]\<rparr>
     \<and> hist s5 = \<lparr>past = [JNum 0], present = JNum 1, future = [JNum 2]\<rparr>
     \<and> hist s6 = \<lparr>past = [JNum 0, JNum 1], present = JNum 5, future = []\<rparr>)"
  by code_simp

text \<open>
  C6. A \<open>set\<close> whose next value is equal to \<open>present\<close> returns the stored object itself:
  the whole state of the hook, the identity of the history object included, is the one
  before the call.
\<close>

theorem C6_set_equal_is_noop:
  assumes "isEqual (nextValue val (present (hist s))) (present (hist s))"
  shows "setState val s = s"
  using assms by (rule setState_same)

theorem C6_set_equal_is_noop_witness:
  "isEqual (nextValue (Value (JObj [(''a'', JUndefined)])) (JObj [])) (JObj [])
   \<and> setState (Value (JObj [(''a'', JUndefined)]))
        \<lparr>history = (1, \<lparr>past = [JNum 1], present = JObj [], future = [JNum 3]\<rparr>),
         lastSavedState = JNum 1, fresh = 2\<rparr>
      = \<lparr>history = (1, \<lparr>past = [JNum 1], present = JObj [], future = [JNum 3]\<rparr>),
         lastSavedState = JNum 1, fresh = 2\<rparr>"
proof -
  let ?s = "\<lparr>history = (1, \<lparr>past = [JNum 1], present = JObj [], future = [JNum 3]\<rparr>),
             lastSavedState = JNum 1, fresh = 2\<rparr>"
  have a: "isEqual (nextValue (Value (JObj [(''a'', JUndefined)])) (present (hist ?s)))
             (present (hist ?s))"
    by code_simp
  from C6_set_equal_is_noop [OF a] a show ?thesis by simp
qed

text \<open>
  C7. \<open>undo\<close> with an empty \<open>past\<close> and \<open>redo\<close> with an empty \<open>future\<close> return the state
  they were given. Both are total functions on the state: the code has no path that
  throws.
\<close>

theorem C7_boundary_calls_are_noops:
  "(past (hist s) = [] \<longrightarrow> undo s = s) \<and> (future (hist s) = [] \<longrightarrow> redo s = s)"
  by (simp add: undo_def redo_def setHistory_def undo_updater_def redo_updater_def)

theorem C7_boundary_calls_witness:
  "past (hist (useUndoRedo (JStr ''draft''))) = []
   \<and> future (hist (useUndoRedo (JStr ''draft''))) = []
   \<and> undo (useUndoRedo (JStr ''draft'')) = useUndoRedo (JStr ''draft'')
   \<and> redo (useUndoRedo (JStr ''draft'')) = useUndoRedo (JStr ''draft'')"
proof -
  have a: "past (hist (useUndoRedo (JStr ''draft''))) = []"
    by (simp add: useUndoRedo_def new_object_def)
  have b: "future (hist (useUndoRedo (JStr ''draft''))) = []"
    by (simp add: useUndoRedo_def new_object_def)
  from C7_boundary_calls_are_noops [of "useUndoRedo (JStr ''draft'')"] a b
  show ?thesis by simp
qed

text \<open>
  C8. \<open>reset(X)\<close> leaves \<open>past = []\<close>, \<open>present = X\<close>, \<open>future = []\<close>, makes \<open>X\<close> the saved
  marker, and \<open>hasUnsavedChanges\<close> is false right after.
\<close>

theorem C8_reset:
  "hist (reset x s) = \<lparr>past = [], present = x, future = []\<rparr>
   \<and> lastSavedState (reset x s) = x
   \<and> hasUnsavedChanges (reset x s) = False"
  by (simp add: reset_def setHistory_value_def new_object_def hasUnsavedChanges_def isEqual_def)



text \<open>
  C10. When the most recent entry of \<open>past\<close> is falsy, a \<open>set\<close> whose next value differs
  from \<open>present\<close> appends \<open>present\<close> to \<open>past\<close>, makes the next value \<open>present\<close> and
  empties \<open>future\<close>, whether or not that entry is equal to the next value.
\<close>

theorem C10_falsy_last_past_never_dedups:
  assumes "past (hist s) \<noteq> []"
    and "\<not> truthy (last (past (hist s)))"
    and "\<not> isEqual (nextValue val (present (hist s))) (present (hist s))"
  shows "hist (setState val s) =
     \<lparr>past = past (hist s) @ [present (hist s)],
      present = nextValue val (present (hist s)), future = []\<rparr>"
  using assms(3) assms(2) by (intro hist_setState_push) auto

theorem C10_falsy_last_past_witness:
  "past (hist \<lparr>history = (5, \<lparr>past = [JStr ''''], present = JStr ''a'', future = [JStr ''ab'']\<rparr>),
               lastSavedState = JStr '''', fresh = 6\<rparr>) \<noteq> []
   \<and> \<not> truthy (last [JStr ''''])
   \<and> \<not> isEqual (nextValue (Value (JStr '''')) (JStr ''a'')) (JStr ''a'')
   \<and> isEqual (last [JStr '''']) (nextValue (Value (JStr '''')) (JStr ''a''))
   \<and> hist (setState (Value (JStr ''''))
        \<lparr>history = (5, \<lparr>past = [JStr ''''], present = JStr ''a'', future = [JStr ''ab'']\<rparr>),
         lastSavedState = JStr '''', fresh = 6\<rparr>)
      = \<lparr>past = [JStr '''', JStr ''a''], present = JStr '''', future = []\<rparr>"
proof -
  let ?s = "\<lparr>history = (5, \<lparr>past = [JStr ''''], present = JStr ''a'', future = [JStr ''ab'']\<rparr>),
             lastSavedState = JStr '''', fresh = 6\<rparr>"
  have a: "past (hist ?s) \<noteq> []"
    by simp
  have b: "\<not> truthy (last (past (hist ?s)))"
    by simp
  have c: "\<not> isEqual (nextValue (Value (JStr '''')) (present (hist ?s))) (present (hist ?s))"
    by code_simp
  have d: "isEqual (last [JStr '''']) (nextValue (Value (JStr '''')) (JStr ''a''))"
    by code_simp
  from C10_falsy_last_past_never_dedups [OF a b c] a b c d show ?thesis by simp
qed

end
